theory Spec2Isabelle
  imports Complex_Main
begin

section \<open>Python values used by document_loader.py\<close>

text \<open>
  A Python \<open>str\<close> is a sequence of Unicode code points and \<open>len\<close> counts code
  points, so a string is modelled as the list of its code points. \<open>lit\<close> turns an
  ASCII literal of the source into that representation.
\<close>

type_synonym str = "nat list"

abbreviation lit :: "string \<Rightarrow> str" where
  "lit s \<equiv> map of_char s"

text \<open>
  The exceptions that \<open>except Exception as e\<close> catches; \<open>message\<close> is \<open>str(e)\<close>.
\<close>

datatype exn = Exception (message: str)

text \<open>
  \<open>str.isspace\<close> on one code point: the code points that CPython classifies as
  whitespace, which are those that \<open>str.split()\<close> and \<open>str.strip()\<close> act on.
\<close>

definition isspace :: "nat \<Rightarrow> bool" where
  "isspace c \<longleftrightarrow>
     (9 \<le> c \<and> c \<le> 13) \<or> (28 \<le> c \<and> c \<le> 32) \<or> c = 133 \<or> c = 160 \<or> c = 5760 \<or>
     (8192 \<le> c \<and> c \<le> 8202) \<or> c = 8232 \<or> c = 8233 \<or> c = 8239 \<or> c = 8287 \<or> c = 12288"

text \<open>
  \<open>s.split()\<close>: the maximal runs of non-whitespace code points, scanned left to
  right; \<open>w\<close> is the word being collected.
\<close>

primrec words_from :: "str \<Rightarrow> str \<Rightarrow> str list" where
  "words_from w [] = (if w = [] then [] else [w])"
| "words_from w (c # cs) =
     (if isspace c then (if w = [] then words_from [] cs else w # words_from [] cs)
      else words_from (w @ [c]) cs)"

definition str_split :: "str \<Rightarrow> str list" where
  "str_split s = words_from [] s"

text \<open>\<open>s.split(sep)\<close> for a separator of one code point, as in \<open>split(chr(10))\<close>.\<close>

primrec pieces_from :: "nat \<Rightarrow> str \<Rightarrow> str \<Rightarrow> str list" where
  "pieces_from sep w [] = [w]"
| "pieces_from sep w (c # cs) =
     (if c = sep then w # pieces_from sep [] cs else pieces_from sep (w @ [c]) cs)"

definition str_split_on :: "nat \<Rightarrow> str \<Rightarrow> str list" where
  "str_split_on sep s = pieces_from sep [] s"

text \<open>\<open>s.strip()\<close>: leading and trailing whitespace removed.\<close>

definition str_strip :: "str \<Rightarrow> str" where
  "str_strip s = rev (dropWhile isspace (rev (dropWhile isspace s)))"

text \<open>
  \<open>round(x)\<close> with one argument: the nearest integer, a tie going to the even
  neighbour. The quotient \<open>word_count / 200\<close> is a float in the source; the model
  takes the exact quotient.
\<close>

definition py_round :: "real \<Rightarrow> int" where
  "py_round x =
     (let f = \<lfloor>x\<rfloor>; d = x - of_int f
      in if d < 1 / 2 then f else if 1 / 2 < d then f + 1 else if even f then f else f + 1)"

text \<open>\<open>str(n)\<close> for a non-negative integer: its decimal digits.\<close>

fun str_of_nat :: "nat \<Rightarrow> str" where
  "str_of_nat n = (if n < 10 then [48 + n] else str_of_nat (n div 10) @ [48 + n mod 10])"

declare str_of_nat.simps [simp del]

section \<open>The answer generation chain\<close>

text \<open>
  The third-party parts are parameters of the model: the process environment after
  \<open>load_dotenv()\<close>, the constructor \<open>ChatGoogleGenerativeAI\<close> (which reads the
  environment and may raise), the model call of the client it returns, the
  \<open>StrOutputParser\<close> and the UTF-8 decoder of the upload.
\<close>

datatype ai_message = AIMessage (content: str)

type_synonym llm = "str \<Rightarrow> exn + ai_message"

record env =
  environ :: "str \<Rightarrow> str option"
  ChatGoogleGenerativeAI :: "(str \<Rightarrow> str option) \<Rightarrow> exn + llm"
  StrOutputParser :: "ai_message \<Rightarrow> exn + str"
  decode_utf8 :: "nat list \<Rightarrow> exn + str"

definition init_model :: "env \<Rightarrow> exn + llm" where
  "init_model ev = ChatGoogleGenerativeAI ev (environ ev)"

text \<open>The prompt template with \<open>{context}\<close> and \<open>{question}\<close> filled in.\<close>

definition prompt_format :: "str \<Rightarrow> str \<Rightarrow> str" where
  "prompt_format context_text question =
     lit ''Based on the following text context, please answer the question accurately and concisely.''
     @ [10, 10] @ lit ''Context:'' @ [10] @ context_text @ [10, 10]
     @ lit ''Question: '' @ question @ [10, 10]
     @ lit ''Answer: Please provide a clear and informative answer based only on the information provided in the context. If the answer cannot be found in the context, please state that clearly.''"

text \<open>
  \<open>chain.invoke\<close> for \<open>chain = prompt | model | parser\<close>, together with the
  construction of the model before it: the body of the \<open>try\<close> block. The first
  exception ends it.
\<close>

definition chain_invoke :: "env \<Rightarrow> str \<Rightarrow> str \<Rightarrow> exn + str" where
  "chain_invoke ev context_text question =
     (case init_model ev of
        Inl e \<Rightarrow> Inl e
      | Inr model \<Rightarrow>
          (case model (prompt_format context_text question) of
             Inl e \<Rightarrow> Inl e
           | Inr msg \<Rightarrow> StrOutputParser ev msg))"

text \<open>\<open>generate_answer\<close>: the \<open>try\<close> block and its \<open>except Exception\<close> handler.\<close>

definition generate_answer :: "env \<Rightarrow> str \<Rightarrow> str \<Rightarrow> str" where
  "generate_answer ev context_text question =
     (case chain_invoke ev context_text question of
        Inr result \<Rightarrow> result
      | Inl e \<Rightarrow> lit ''Error generating answer: '' @ message e)"

section \<open>Session state\<close>

record qa_entry =
  question :: str
  answer :: str
  timestamp :: str

record session =
  user_text :: str
  qa_history :: "qa_entry list"
  current_answer :: str
  file_uploaded :: bool
  file_name :: str

text \<open>
  \<open>st.session_state\<close> as the script finds it: each key is present or not.
  \<open>init_session_state\<close> gives every missing key its default and keeps the others.
\<close>

record session_state =
  user_text_key :: "str option"
  qa_history_key :: "qa_entry list option"
  current_answer_key :: "str option"
  file_uploaded_key :: "bool option"
  file_name_key :: "str option"

definition init_session_state :: "session_state \<Rightarrow> session" where
  "init_session_state st =
     \<lparr>user_text = (case user_text_key st of None \<Rightarrow> [] | Some v \<Rightarrow> v),
      qa_history = (case qa_history_key st of None \<Rightarrow> [] | Some v \<Rightarrow> v),
      current_answer = (case current_answer_key st of None \<Rightarrow> [] | Some v \<Rightarrow> v),
      file_uploaded = (case file_uploaded_key st of None \<Rightarrow> False | Some v \<Rightarrow> v),
      file_name = (case file_name_key st of None \<Rightarrow> [] | Some v \<Rightarrow> v)\<rparr>"

section \<open>One run of the script\<close>

text \<open>
  What the framework hands to one run of \<open>main\<close>: whether the clear button was
  pressed, the uploaded file if there is one, the text area (which returns a string
  for the \<open>value\<close> it is given), whether the form was submitted and with which
  question, and the wall-clock time \<open>datetime.now().strftime("%H:%M:%S")\<close>.
\<close>

record uploaded_file =
  name :: str
  bytes :: "nat list"

record inputs =
  clear_clicked :: bool
  uploaded :: "uploaded_file option"
  text_area :: "str \<Rightarrow> str"
  submitted :: bool
  question_input :: str
  now :: str

text \<open>The five assignments under the clear button, in the order of the source.\<close>

definition clear_all :: "session \<Rightarrow> session" where
  "clear_all s =
     (let s = s\<lparr>user_text := []\<rparr>;
          s = s\<lparr>qa_history := []\<rparr>;
          s = s\<lparr>current_answer := []\<rparr>;
          s = s\<lparr>file_uploaded := False\<rparr>;
          s = s\<lparr>file_name := []\<rparr>
      in s)"

text \<open>
  The upload block: the decoding comes first and may raise, before any field is
  assigned.
\<close>

definition load_from_file :: "env \<Rightarrow> uploaded_file option \<Rightarrow> session \<Rightarrow> exn + session" where
  "load_from_file ev up s =
     (case up of
        None \<Rightarrow> Inr s
      | Some f \<Rightarrow>
          (case decode_utf8 ev (bytes f) of
             Inl e \<Rightarrow> Inl e
           | Inr file_content \<Rightarrow>
               Inr (s\<lparr>user_text := file_content, file_uploaded := True, file_name := name f\<rparr>)))"

text \<open>The block after the text area: \<open>if user_text != st.session_state.user_text\<close>.\<close>

definition load_from_manual_entry :: "str \<Rightarrow> session \<Rightarrow> session" where
  "load_from_manual_entry displayed s =
     (if displayed \<noteq> user_text s
      then s\<lparr>user_text := displayed, file_uploaded := False, file_name := []\<rparr>
      else s)"

text \<open>
  The body of the form: \<open>if submitted and question.strip()\<close>. It returns the
  session, the arguments of the calls of \<open>generate_answer\<close> that were made, and
  whether \<open>st.rerun()\<close> was reached.
\<close>

definition submit_question ::
  "env \<Rightarrow> bool \<Rightarrow> str \<Rightarrow> str \<Rightarrow> session \<Rightarrow> session \<times> (str \<times> str) list \<times> bool" where
  "submit_question ev sub q ts s =
     (if sub \<and> str_strip q \<noteq> []
      then (let a = generate_answer ev (user_text s) q;
                s = s\<lparr>qa_history := qa_history s @ [\<lparr>question = q, answer = a, timestamp = ts\<rparr>]\<rparr>;
                s = s\<lparr>current_answer := a\<rparr>
            in (s, [(user_text s, q)], True))
      else (s, [], False))"

subsection \<open>What is rendered\<close>

definition word_count :: "str \<Rightarrow> nat" where
  "word_count t = length (str_split t)"

definition reading_time :: "str \<Rightarrow> int" where
  "reading_time t = max 1 (py_round (real (word_count t) / 200))"

record statistics =
  characters :: nat
  words :: nat
  lines :: nat
  est_reading_time :: int

definition text_statistics :: "str \<Rightarrow> statistics" where
  "text_statistics t =
     \<lparr>characters = length t, words = length (str_split t),
      lines = length (str_split_on 10 t), est_reading_time = reading_time t\<rparr>"

text \<open>The warning sits inside \<open>if st.session_state.user_text:\<close>.\<close>

definition large_text_warning :: "str \<Rightarrow> bool" where
  "large_text_warning t \<longleftrightarrow> t \<noteq> [] \<and> 50000 < length t"

text \<open>
  \<open>enumerate(reversed(qa_history[-5:]))\<close>, and the expander made for each pair:
  its label, and the question and the answer written inside.
\<close>

definition last5 :: "'a list \<Rightarrow> 'a list" where
  "last5 h = drop (length h - 5) h"

record expander =
  label :: str
  shown_question :: str
  shown_answer :: str

definition history_expander :: "nat \<Rightarrow> nat \<times> qa_entry \<Rightarrow> expander" where
  "history_expander n p =
     (case p of (i, qa) \<Rightarrow>
        \<lparr>label = lit ''Q'' @ str_of_nat (n - i) @ lit '': '' @ take 50 (question qa)
                 @ lit ''... ('' @ timestamp qa @ lit '')'',
         shown_question = question qa,
         shown_answer = answer qa\<rparr>)"

definition history_panel :: "qa_entry list \<Rightarrow> expander list" where
  "history_panel h = map (history_expander (length h)) (enumerate 0 (rev (last5 h)))"

record view =
  upload_success :: "str option"
  stats :: "statistics option"
  file_info :: "str option"
  warning_shown :: bool
  form_shown :: bool
  latest_answer :: "str option"
  history :: "expander list"
  original_text :: "str option"

definition render :: "uploaded_file option \<Rightarrow> session \<Rightarrow> view" where
  "render up s =
     \<lparr>upload_success = map_option name up,
      stats = (if user_text s \<noteq> [] then Some (text_statistics (user_text s)) else None),
      file_info = (if user_text s \<noteq> [] \<and> file_uploaded s then Some (file_name s) else None),
      warning_shown = large_text_warning (user_text s),
      form_shown = (str_strip (user_text s) \<noteq> []),
      latest_answer = (if current_answer s \<noteq> [] then Some (current_answer s) else None),
      history = (if qa_history s \<noteq> [] then history_panel (qa_history s) else []),
      original_text = (if user_text s \<noteq> [] then Some (user_text s) else None)\<rparr>"

subsection \<open>\<open>main\<close>\<close>

text \<open>
  A run ends in one of three ways: \<open>st.rerun()\<close> stops it, an exception escapes
  it, or it reaches the footer with the page rendered.
\<close>

datatype outcome = Rerun | Raised exn | Rendered view

record run_result =
  outcome :: outcome
  final :: session
  generate_calls :: "(str \<times> str) list"

definition main_body :: "env \<Rightarrow> inputs \<Rightarrow> session \<Rightarrow> run_result" where
  "main_body ev inp s0 =
     (if clear_clicked inp
      then \<lparr>outcome = Rerun, final = clear_all s0, generate_calls = []\<rparr>
      else
        (case load_from_file ev (uploaded inp) s0 of
           Inl e \<Rightarrow> \<lparr>outcome = Raised e, final = s0, generate_calls = []\<rparr>
         | Inr s1 \<Rightarrow>
             (let s2 = load_from_manual_entry (text_area inp (user_text s1)) s1
              in if str_strip (user_text s2) \<noteq> []
                 then (case submit_question ev (submitted inp) (question_input inp) (now inp) s2 of
                         (s3, calls, rerun) \<Rightarrow>
                           \<lparr>outcome = (if rerun then Rerun else Rendered (render (uploaded inp) s3)),
                            final = s3, generate_calls = calls\<rparr>)
                 else \<lparr>outcome = Rendered (render (uploaded inp) s2), final = s2,
                       generate_calls = []\<rparr>)))"

definition main :: "env \<Rightarrow> inputs \<Rightarrow> session_state \<Rightarrow> run_result" where
  "main ev inp st = main_body ev inp (init_session_state st)"

section \<open>Properties under study\<close>

text \<open>
  The reading time as the written description words it: the word count divided by 200,
  rounded up, at least one minute. It is compared with \<open>reading_time\<close> below.
\<close>

definition reading_time_rounded_up :: "str \<Rightarrow> int" where
  "reading_time_rounded_up t = max 1 \<lceil>real (word_count t) / 200\<rceil>"

text \<open>
  The link between the history and the latest answer: when the history is not empty,
  \<open>current_answer\<close> is the answer of its last entry.
\<close>

definition history_answer_inv :: "session \<Rightarrow> bool" where
  "history_answer_inv s \<longleftrightarrow>
     (qa_history s \<noteq> [] \<longrightarrow> current_answer s = answer (last (qa_history s)))"

subsection \<open>Example environments, states and inputs\<close>

text \<open>
  A first visit finds no key in the session state. The two environments differ only in
  the presence of the credential; their client constructor raises when it is absent,
  their model answers \<open>blue\<close>, and their decoder accepts ASCII bytes.
\<close>

definition fresh_state :: session_state where
  "fresh_state =
     \<lparr>user_text_key = None, qa_history_key = None, current_answer_key = None,
      file_uploaded_key = None, file_name_key = None\<rparr>"

definition env_without_credential :: env where
  "env_without_credential =
     \<lparr>environ = (\<lambda>k. None),
      ChatGoogleGenerativeAI =
        (\<lambda>vars. case vars (lit ''GOOGLE_API_KEY'') of
                   None \<Rightarrow> Inl (Exception (lit ''API key required''))
                 | Some k \<Rightarrow> Inr (\<lambda>p. Inr (AIMessage (lit ''blue'')))),
      StrOutputParser = (\<lambda>m. Inr (content m)),
      decode_utf8 = (\<lambda>b. if list_all (\<lambda>x. x < 128) b then Inr b
                          else Inl (Exception (lit ''invalid start byte'')))\<rparr>"

definition env_with_credential :: env where
  "env_with_credential =
     env_without_credential
       \<lparr>environ := (\<lambda>k. if k = lit ''GOOGLE_API_KEY'' then Some (lit ''k'') else None)\<rparr>"

definition idle :: inputs where
  "idle =
     \<lparr>clear_clicked = False, uploaded = None, text_area = (\<lambda>v. v), submitted = False,
      question_input = [], now = lit ''12:00:00''\<rparr>"

definition sky_state :: session_state where
  "sky_state =
     \<lparr>user_text_key = Some (lit ''The sky is blue.''),
      qa_history_key =
        Some [\<lparr>question = lit ''Is it day?'', answer = lit ''Unknown.'', timestamp = lit ''11:59:00''\<rparr>],
      current_answer_key = Some (lit ''Unknown.''),
      file_uploaded_key = Some True,
      file_name_key = Some (lit ''sky.txt'')\<rparr>"

definition six_entries :: "qa_entry list" where
  "six_entries =
     [\<lparr>question = lit ''q1'', answer = lit ''a1'', timestamp = lit ''t1''\<rparr>,
      \<lparr>question = lit ''q2'', answer = lit ''a2'', timestamp = lit ''t2''\<rparr>,
      \<lparr>question = lit ''q3'', answer = lit ''a3'', timestamp = lit ''t3''\<rparr>,
      \<lparr>question = lit ''q4'', answer = lit ''a4'', timestamp = lit ''t4''\<rparr>,
      \<lparr>question = lit ''q5'', answer = lit ''a5'', timestamp = lit ''t5''\<rparr>,
      \<lparr>question = replicate 60 120, answer = lit ''a6'', timestamp = lit ''t6''\<rparr>]"

section \<open>Helper lemmas\<close>

lemma word_count_repeated: "word_count (concat (replicate n [119, 32])) = n"
  by (induction n) (simp_all add: word_count_def str_split_def isspace_def)

lemma py_round_div_200:
  "py_round (real n / 200) =
     (let q = int n div 200; r = int n mod 200
      in if r < 100 then q else if 100 < r then q + 1 else if even q then q else q + 1)"
proof -
  have fl: "\<lfloor>real n / 200\<rfloor> = int n div 200"
    by (metis floor_divide_of_int_eq of_int_numeral of_int_of_nat_eq)
  have d: "real n / 200 - of_int (int n div 200) = real_of_int (int n mod 200) / 200"
  proof -
    have "int n = 200 * (int n div 200) + int n mod 200" by simp
    then have "real_of_int (int n) = 200 * real_of_int (int n div 200) + real_of_int (int n mod 200)"
      by (metis of_int_add of_int_mult of_int_numeral)
    then show ?thesis by (simp add: field_simps)
  qed
  show ?thesis
    unfolding py_round_def Let_def fl d by (auto simp: field_simps)
qed

lemma load_from_file_frame:
  "load_from_file ev up s = Inr s1 \<Longrightarrow>
     qa_history s1 = qa_history s \<and> current_answer s1 = current_answer s"
  by (auto simp: load_from_file_def split: option.splits sum.splits)

lemma load_from_manual_entry_frame:
  "qa_history (load_from_manual_entry d s) = qa_history s \<and>
   current_answer (load_from_manual_entry d s) = current_answer s"
  by (simp add: load_from_manual_entry_def)

lemma length_history_panel: "length (history_panel h) = min 5 (length h)"
  by (auto simp: history_panel_def last5_def)

lemma history_panel_nth:
  assumes "i < length (history_panel h)"
  shows "history_panel h ! i = history_expander (length h) (i, h ! (length h - 1 - i))"
proof -
  from assms have i: "i < min 5 (length h)" by (simp add: length_history_panel)
  then have l: "i < length (rev (last5 h))" by (auto simp: last5_def)
  have "rev (last5 h) ! i = last5 h ! (length (last5 h) - Suc i)"
    using l by (simp add: rev_nth)
  also have "\<dots> = h ! (length h - 1 - i)"
    using i by (auto simp: last5_def min_def split: if_splits intro!: arg_cong [where f = "nth h"])
  finally have r: "rev (last5 h) ! i = h ! (length h - 1 - i)" .
  show ?thesis
    using l r by (simp add: history_panel_def nth_enumerate_eq)
qed

lemma main_without_submission:
  assumes "decode_utf8 ev' = decode_utf8 ev"
    and "\<not> (submitted inp \<and> str_strip (question_input inp) \<noteq> [])"
  shows "main ev' inp st = main ev inp st"
  using assms
  by (auto simp: main_def main_body_def Let_def submit_question_def load_from_file_def
      split: prod.splits sum.splits option.splits)

lemma generate_answer_init_failure:
  "init_model ev = Inl e \<Longrightarrow>
     generate_answer ev c q = lit ''Error generating answer: '' @ message e"
  by (simp add: generate_answer_def chain_invoke_def)

section \<open>The claims\<close>

text \<open>
  C1. For every context and question, \<open>generate_answer\<close> returns a string: the
  parsed answer of the chain when the chain returns one, and otherwise the text
  \<open>Error generating answer: \<close> followed by the message of the exception that the
  construction of the model, the model call or the parser raised. No exception leaves
  the function.
\<close>

theorem generate_answer_total:
  "(\<exists>result. chain_invoke ev context_text q = Inr result \<and> generate_answer ev context_text q = result) \<or>
   (\<exists>e. chain_invoke ev context_text q = Inl e \<and>
        generate_answer ev context_text q = lit ''Error generating answer: '' @ message e)"
  by (cases "chain_invoke ev context_text q") (simp_all add: generate_answer_def)

text \<open>
  C2, as amended. The displayed reading time is the word count divided by 200 and rounded
  to the nearest integer, a tie going to the even neighbour (Python's \<open>round\<close>), and at
  least 1: with \<open>q\<close> the quotient and \<open>r\<close> the remainder of the word count by 200,
  it is \<open>q\<close> when \<open>r < 100\<close>, \<open>q + 1\<close> when \<open>r > 100\<close>, and the even one of
  the two when \<open>r = 100\<close>.
\<close>

theorem reading_time_nearest:
  "reading_time t =
     (let q = int (word_count t) div 200; r = int (word_count t) mod 200
      in max 1 (if r < 100 then q else if 100 < r then q + 1 else if even q then q else q + 1))"
  by (simp add: reading_time_def py_round_div_200 Let_def)

text \<open>
  C2 as stated fails: a text of 201 words is displayed with a reading time of 1 minute,
  where rounding up gives 2.
\<close>

theorem reading_time_counterexample:
  "concat (replicate 201 (lit ''w '')) \<noteq> [] \<and>
   word_count (concat (replicate 201 (lit ''w ''))) = 201 \<and>
   reading_time (concat (replicate 201 (lit ''w ''))) = 1 \<and>
   reading_time_rounded_up (concat (replicate 201 (lit ''w ''))) = 2"
proof -
  have w: "word_count (concat (replicate 201 (lit ''w ''))) = 201"
    using word_count_repeated [of 201] by simp
  have ne: "concat (replicate 201 (lit ''w '')) \<noteq> []"
    using w by (auto simp: word_count_def str_split_def)
  have c: "\<lceil>(201::real) / 200\<rceil> = 2" by (simp add: ceiling_eq_iff) 
  have r: "py_round ((201::real) / 200) = 1"
    using py_round_div_200 [of 201] by simp
  show ?thesis
    using w ne c r by (simp add: reading_time_def reading_time_rounded_up_def)
qed

text \<open>
  C3. When the clear button is pressed, the run ends in a rerun with all five session
  fields at their defaults, whatever the state before; no other state is returned.
\<close>

theorem clear_resets_every_field:
  "clear_clicked inp \<Longrightarrow>
     main ev inp st =
       \<lparr>outcome = Rerun,
        final = \<lparr>user_text = [], qa_history = [], current_answer = [], file_uploaded = False,
                 file_name = []\<rparr>,
        generate_calls = []\<rparr>"
  by (simp add: main_def main_body_def clear_all_def init_session_state_def)

theorem clear_resets_every_field_witness:
  "main env_with_credential (idle\<lparr>clear_clicked := True\<rparr>)
     (fresh_state\<lparr>user_text_key := Some (lit ''The sky is blue.''),
                  current_answer_key := Some (lit ''blue''),
                  file_uploaded_key := Some True, file_name_key := Some (lit ''sky.txt'')\<rparr>) =
       \<lparr>outcome = Rerun,
        final = \<lparr>user_text = [], qa_history = [], current_answer = [], file_uploaded = False,
                 file_name = []\<rparr>,
        generate_calls = []\<rparr>"
  using clear_resets_every_field [of "idle\<lparr>clear_clicked := True\<rparr>"] by (simp add: idle_def)

text \<open>
  C4. When the text area returns a text that differs from the stored \<open>user_text\<close>
  (as it stands after the upload block), the run ends with \<open>user_text\<close> equal to
  that text, \<open>file_name\<close> empty and \<open>file_uploaded\<close> false.
\<close>

theorem manual_edit_overwrites:
  assumes "\<not> clear_clicked inp"
    and "load_from_file ev (uploaded inp) (init_session_state st) = Inr s1"
    and "text_area inp (user_text s1) \<noteq> user_text s1"
  shows "user_text (final (main ev inp st)) = text_area inp (user_text s1) \<and>
         file_name (final (main ev inp st)) = [] \<and>
         \<not> file_uploaded (final (main ev inp st))"
  using assms
  by (simp add: main_def main_body_def Let_def load_from_manual_entry_def submit_question_def
      split: prod.splits)

theorem manual_edit_overwrites_witness:
  "user_text (final (main env_with_credential (idle\<lparr>text_area := (\<lambda>v. lit ''Grass is green.'')\<rparr>) sky_state))
     = lit ''Grass is green.'' \<and>
   file_name (final (main env_with_credential (idle\<lparr>text_area := (\<lambda>v. lit ''Grass is green.'')\<rparr>) sky_state))
     = [] \<and>
   \<not> file_uploaded (final (main env_with_credential (idle\<lparr>text_area := (\<lambda>v. lit ''Grass is green.'')\<rparr>) sky_state))"
  using manual_edit_overwrites
    [of "idle\<lparr>text_area := (\<lambda>v. lit ''Grass is green.'')\<rparr>" env_with_credential sky_state
        "init_session_state sky_state"]
  by (simp add: idle_def sky_state_def init_session_state_def load_from_file_def)

text \<open>
  C5. When the question is empty after stripping whitespace, the run makes no call of
  \<open>generate_answer\<close> and appends nothing to the history: the history is the one the
  run started with (or empty, when the clear button was pressed in the same run).
\<close>

theorem empty_question_noop:
  assumes "str_strip (question_input inp) = []"
  shows "generate_calls (main ev inp st) = [] \<and>
         qa_history (final (main ev inp st)) =
           (if clear_clicked inp then [] else qa_history (init_session_state st))"
  using assms
  by (auto simp: main_def main_body_def Let_def submit_question_def clear_all_def
      load_from_manual_entry_frame
      split: prod.splits sum.splits dest: load_from_file_frame)

theorem empty_question_noop_witness:
  "str_strip (lit ''   '') = [] \<and>
   generate_calls (main env_with_credential
       (idle\<lparr>submitted := True, question_input := lit ''   ''\<rparr>) sky_state) = [] \<and>
   qa_history (final (main env_with_credential
       (idle\<lparr>submitted := True, question_input := lit ''   ''\<rparr>) sky_state)) =
     [\<lparr>question = lit ''Is it day?'', answer = lit ''Unknown.'', timestamp = lit ''11:59:00''\<rparr>]"
  using empty_question_noop
    [of "idle\<lparr>submitted := True, question_input := lit ''   ''\<rparr>" env_with_credential sky_state]
  by (simp add: idle_def sky_state_def init_session_state_def str_strip_def isspace_def)

text \<open>
  C6. The large-text warning is rendered exactly when the text has more than 50000
  code points: it is rendered at length 60000 and not at length 50000.
\<close>

theorem large_text_warning_threshold:
  "(warning_shown (render up s) \<longleftrightarrow> 50000 < length (user_text s)) \<and>
   warning_shown (render up (s\<lparr>user_text := replicate 60000 c\<rparr>)) \<and>
   \<not> warning_shown (render up (s\<lparr>user_text := replicate 50000 c\<rparr>))"
  by (auto simp: render_def large_text_warning_def)

text \<open>
  C7. The history panel has \<open>min 5 (length h)\<close> expanders; the expander at position
  \<open>i\<close> shows the entry \<open>i\<close> places before the last one (newest first), and its
  label holds the first 50 code points of the question, between the entry's number and
  the timestamp.
\<close>

theorem history_panel_last_five:
  "length (history_panel h) = min 5 (length h) \<and>
   (\<forall>i < length (history_panel h).
      history_panel h ! i =
        \<lparr>label = lit ''Q'' @ str_of_nat (length h - i) @ lit '': ''
                 @ take 50 (question (h ! (length h - 1 - i)))
                 @ lit ''... ('' @ timestamp (h ! (length h - 1 - i)) @ lit '')'',
         shown_question = question (h ! (length h - 1 - i)),
         shown_answer = answer (h ! (length h - 1 - i))\<rparr>)"
  using history_panel_nth [of _ h]
  by (simp add: length_history_panel history_expander_def)

theorem history_panel_last_five_witness:
  "length (history_panel six_entries) = 5 \<and>
   history_panel six_entries ! 0 =
     \<lparr>label = lit ''Q6: '' @ replicate 50 120 @ lit ''... (t6)'',
      shown_question = replicate 60 120, shown_answer = lit ''a6''\<rparr> \<and>
   history_panel six_entries ! 4 =
     \<lparr>label = lit ''Q2: q2... (t2)'', shown_question = lit ''q2'', shown_answer = lit ''a2''\<rparr>"
proof -
  have l: "length six_entries = 6" by (simp add: six_entries_def)
  have n: "length (history_panel six_entries) = 5"
    and a: "\<forall>i < length (history_panel six_entries).
      history_panel six_entries ! i =
        \<lparr>label = lit ''Q'' @ str_of_nat (length six_entries - i) @ lit '': ''
                 @ take 50 (question (six_entries ! (length six_entries - 1 - i)))
                 @ lit ''... ('' @ timestamp (six_entries ! (length six_entries - 1 - i)) @ lit '')'',
         shown_question = question (six_entries ! (length six_entries - 1 - i)),
         shown_answer = answer (six_entries ! (length six_entries - 1 - i))\<rparr>"
    using history_panel_last_five [of six_entries] l by simp_all
  from a n have "history_panel six_entries ! 0 =
        \<lparr>label = lit ''Q'' @ str_of_nat 6 @ lit '': '' @ take 50 (question (six_entries ! 5))
                 @ lit ''... ('' @ timestamp (six_entries ! 5) @ lit '')'',
         shown_question = question (six_entries ! 5),
         shown_answer = answer (six_entries ! 5)\<rparr>"
    using l by simp
  then have p0: "history_panel six_entries ! 0 =
     \<lparr>label = lit ''Q6: '' @ replicate 50 120 @ lit ''... (t6)'',
      shown_question = replicate 60 120, shown_answer = lit ''a6''\<rparr>"
    by (simp add: six_entries_def str_of_nat.simps [of 6])
  from a n have "history_panel six_entries ! 4 =
        \<lparr>label = lit ''Q'' @ str_of_nat 2 @ lit '': '' @ take 50 (question (six_entries ! 1))
                 @ lit ''... ('' @ timestamp (six_entries ! 1) @ lit '')'',
         shown_question = question (six_entries ! 1),
         shown_answer = answer (six_entries ! 1)\<rparr>"
    using l by simp
  then have p4: "history_panel six_entries ! 4 =
     \<lparr>label = lit ''Q2: q2... (t2)'', shown_question = lit ''q2'', shown_answer = lit ''a2''\<rparr>"
    by (simp add: six_entries_def str_of_nat.simps [of 2])
  from n p0 p4 show ?thesis by simp
qed

text \<open>
  C8. A file upload and a manual edit leave \<open>qa_history\<close> as it was, and in every
  run without the clear button the history at the start is a prefix of the history at
  the end: no entry appended earlier is altered.
\<close>

theorem history_preserved_by_context_change:
  "(\<forall>s1. load_from_file ev up s = Inr s1 \<longrightarrow> qa_history s1 = qa_history s) \<and>
   qa_history (load_from_manual_entry displayed s) = qa_history s \<and>
   (\<not> clear_clicked inp \<longrightarrow>
      take (length (qa_history (init_session_state st))) (qa_history (final (main ev inp st))) =
        qa_history (init_session_state st))"
  by (auto simp: main_def main_body_def Let_def submit_question_def
      load_from_manual_entry_frame
      split: prod.splits sum.splits dest: load_from_file_frame)

theorem history_preserved_by_context_change_witness:
  "qa_history (final (main env_with_credential
      (idle\<lparr>uploaded := Some \<lparr>name = lit ''a.txt'', bytes = lit ''Grass is green.''\<rparr>,
            text_area := (\<lambda>v. lit ''Snow is white.'')\<rparr>) sky_state)) =
     [\<lparr>question = lit ''Is it day?'', answer = lit ''Unknown.'', timestamp = lit ''11:59:00''\<rparr>] \<and>
   user_text (final (main env_with_credential
      (idle\<lparr>uploaded := Some \<lparr>name = lit ''a.txt'', bytes = lit ''Grass is green.''\<rparr>,
            text_area := (\<lambda>v. lit ''Snow is white.'')\<rparr>) sky_state)) = lit ''Snow is white.''"
proof -
  let ?inp = "idle\<lparr>uploaded := Some \<lparr>name = lit ''a.txt'', bytes = lit ''Grass is green.''\<rparr>,
            text_area := (\<lambda>v. lit ''Snow is white.'')\<rparr>"
  have c: "\<not> clear_clicked ?inp" by (simp add: idle_def)
  have h: "qa_history (init_session_state sky_state) =
     [\<lparr>question = lit ''Is it day?'', answer = lit ''Unknown.'', timestamp = lit ''11:59:00''\<rparr>]"
    by (simp add: init_session_state_def sky_state_def)
  have u: "user_text (final (main env_with_credential ?inp sky_state)) = lit ''Snow is white.''"
    by (simp add: main_def main_body_def idle_def sky_state_def init_session_state_def
        load_from_file_def env_with_credential_def env_without_credential_def
        load_from_manual_entry_def str_strip_def isspace_def submit_question_def Let_def)
  have n: "length (qa_history (final (main env_with_credential ?inp sky_state))) = 1"
    by (simp add: main_def main_body_def idle_def sky_state_def init_session_state_def
        load_from_file_def env_with_credential_def env_without_credential_def
        load_from_manual_entry_def str_strip_def isspace_def submit_question_def Let_def)
  have "take (length (qa_history (init_session_state sky_state)))
          (qa_history (final (main env_with_credential ?inp sky_state))) =
        qa_history (init_session_state sky_state)"
    using history_preserved_by_context_change
      [of env_with_credential None "init_session_state sky_state" "[]" ?inp sky_state] c
    by blast
  with h n u show ?thesis by simp
qed

text \<open>
  C9, as amended. The credential is not checked at startup. A run in which no question
  is submitted does not depend on the environment variables or on the client
  constructor (it is the same in any two environments with the same decoder), and
  when the constructor raises, the failure appears once a question is submitted, as
  the answer text \<open>Error generating answer: \<close> followed by the message.
\<close>

theorem missing_credential_deferred:
  "(decode_utf8 ev' = decode_utf8 ev \<and> \<not> (submitted inp \<and> str_strip (question_input inp) \<noteq> [])
      \<longrightarrow> main ev' inp st = main ev inp st) \<and>
   (init_model ev = Inl e \<longrightarrow>
      generate_answer ev context_text q = lit ''Error generating answer: '' @ message e)"
  using main_without_submission [of ev' ev inp st] generate_answer_init_failure [of ev e]
  by blast

theorem missing_credential_deferred_witness:
  "main env_with_credential idle fresh_state = main env_without_credential idle fresh_state \<and>
   generate_answer env_without_credential (lit ''The sky is blue.'') (lit ''What color is the sky?'') =
     lit ''Error generating answer: API key required''"
  using missing_credential_deferred
    [of env_with_credential env_without_credential idle fresh_state
        "Exception (lit ''API key required'')" "lit ''The sky is blue.''"
        "lit ''What color is the sky?''"]
  by (simp add: env_with_credential_def env_without_credential_def idle_def init_model_def)

text \<open>
  C9 as stated fails: without the credential, in an environment whose client
  constructor raises, the first run of the script renders the page and raises nothing.
\<close>

theorem missing_credential_counterexample:
  "environ env_without_credential (lit ''GOOGLE_API_KEY'') = None \<and>
   init_model env_without_credential = Inl (Exception (lit ''API key required'')) \<and>
   main env_without_credential idle fresh_state =
     \<lparr>outcome = Rendered \<lparr>upload_success = None, stats = None, file_info = None,
                 warning_shown = False, form_shown = False, latest_answer = None,
                 history = [], original_text = None\<rparr>,
      final = \<lparr>user_text = [], qa_history = [], current_answer = [], file_uploaded = False,
               file_name = []\<rparr>,
      generate_calls = []\<rparr>"
  by (simp add: env_without_credential_def init_model_def idle_def fresh_state_def main_def
      main_body_def init_session_state_def load_from_file_def load_from_manual_entry_def
      str_strip_def render_def large_text_warning_def)

text \<open>
  C10. The invariant \<open>history_answer_inv\<close> holds in the state of a first visit and
  every run of \<open>main\<close> preserves it, whichever of the clear button, the upload, the
  manual edit and the submission take place in the run.
\<close>

theorem history_answer_inv_preserved:
  "history_answer_inv (init_session_state fresh_state) \<and>
   (history_answer_inv (init_session_state st) \<longrightarrow>
      history_answer_inv (final (main ev inp st)))"
  by (auto simp: main_def main_body_def Let_def submit_question_def history_answer_inv_def
      clear_all_def load_from_manual_entry_frame init_session_state_def fresh_state_def
      split: prod.splits sum.splits if_splits dest: load_from_file_frame)

theorem history_answer_inv_preserved_witness:
  "history_answer_inv (init_session_state sky_state) \<and>
   qa_history (final (main env_with_credential
      (idle\<lparr>submitted := True, question_input := lit ''What color is the sky?''\<rparr>) sky_state)) =
     [\<lparr>question = lit ''Is it day?'', answer = lit ''Unknown.'', timestamp = lit ''11:59:00''\<rparr>,
      \<lparr>question = lit ''What color is the sky?'', answer = lit ''blue'', timestamp = lit ''12:00:00''\<rparr>] \<and>
   history_answer_inv (final (main env_with_credential
      (idle\<lparr>submitted := True, question_input := lit ''What color is the sky?''\<rparr>) sky_state))"
proof -
  let ?inp = "idle\<lparr>submitted := True, question_input := lit ''What color is the sky?''\<rparr>"
  have i: "history_answer_inv (init_session_state sky_state)"
    by (simp add: history_answer_inv_def init_session_state_def sky_state_def)
  have g: "generate_answer env_with_credential (lit ''The sky is blue.'') (lit ''What color is the sky?'')
       = lit ''blue''"
    by (simp add: generate_answer_def chain_invoke_def init_model_def env_with_credential_def
        env_without_credential_def)
  have q: "qa_history (final (main env_with_credential ?inp sky_state)) =
     [\<lparr>question = lit ''Is it day?'', answer = lit ''Unknown.'', timestamp = lit ''11:59:00''\<rparr>,
      \<lparr>question = lit ''What color is the sky?'', answer = lit ''blue'', timestamp = lit ''12:00:00''\<rparr>]"
    using g
    by (simp add: main_def main_body_def idle_def sky_state_def init_session_state_def
        load_from_file_def load_from_manual_entry_def str_strip_def isspace_def
        submit_question_def Let_def)
  from i q show ?thesis
    using history_answer_inv_preserved [of sky_state env_with_credential ?inp] by blast
qed

end
